theory Spec2Isabelle
  imports Complex_Main
begin

text \<open>
  A shallow embedding of the statistical core of the LEGO investment pipeline
  (\<^verbatim>\<open>scripts/ml\<close>): the milestone aggregator, the feature builder, the imputation
  step of the trainer, the scorer and the calibration check of the validator.

  Conventions. Python floats are modelled as \<^typ>\<open>real\<close> (exact arithmetic, no
  rounding error, no NaN); a nullable cell of a frame (NaN / None) is an \<^typ>\<open>'a option\<close>.
  Dates are day numbers (\<^typ>\<open>int\<close>), so adding \<^verbatim>\<open>pd.Timedelta(days=k)\<close> is adding
  \<open>k\<close>. A data frame is the list of its rows, in positional order; the frames the
  pipeline builds carry the default index \<open>0, 1, 2, \<dots>\<close>, so a label is a position.
  Database reads and writes, logging and the fitted regressors are outside the model:
  a function that reads the store takes what it would read as an argument, and a
  regressor is a function from its input vector to its prediction.
\<close>


section \<open>Numeric helpers: pandas and numpy aggregates over the reals\<close>

text \<open>
  \<^verbatim>\<open>Series.mean\<close>, \<^verbatim>\<open>Series.median\<close> (middle of the sorted values, the mean of the two
  middle ones for an even count), \<^verbatim>\<open>Series.std\<close> (sample standard deviation, one degree
  of freedom removed) and \<^verbatim>\<open>Series.quantile\<close> (linear interpolation between the two
  nearest order statistics, the pandas default). \<open>None\<close> is NaN.
\<close>

definition pd_mean :: "real list \<Rightarrow> real option" where
  "pd_mean xs = (if xs = [] then None else Some (sum_list xs / real (length xs)))"

definition pd_median :: "real list \<Rightarrow> real option" where
  "pd_median xs =
     (let s = sort xs; n = length s
      in if n = 0 then None
         else if odd n then Some (s ! (n div 2))
         else Some ((s ! (n div 2 - 1) + s ! (n div 2)) / 2))"

definition sq_dev :: "real list \<Rightarrow> real" where
  "sq_dev xs = (let m = sum_list xs / real (length xs) in sum_list (map (\<lambda>x. (x - m)\<^sup>2) xs))"

definition pd_std :: "real list \<Rightarrow> real option" where
  "pd_std xs = (if length xs < 2 then None else Some (sqrt (sq_dev xs / real (length xs - 1))))"

definition pd_quantile :: "real \<Rightarrow> real list \<Rightarrow> real" where
  "pd_quantile q xs =
     (let s = sort xs; n = length s; h = q * real (n - 1); i = nat \<lfloor>h\<rfloor>
      in if i + 1 < n then s ! i + (h - real i) * (s ! (i + 1) - s ! i) else s ! i)"

text \<open>\<^verbatim>\<open>Series.clip(lower, upper)\<close> on one non-null cell.\<close>

definition clip :: "real \<Rightarrow> real \<Rightarrow> real \<Rightarrow> real" where
  "clip lower upper x = min (max x lower) upper"

text \<open>
  \<^verbatim>\<open>round(x, d)\<close>: the nearest number with \<open>d\<close> decimals, a tie going to the even neighbour.
\<close>

definition round_half_even :: "real \<Rightarrow> int" where
  "round_half_even y =
     (let f = \<lfloor>y\<rfloor>; r = y - of_int f
      in if r < 1 / 2 then f else if r > 1 / 2 then f + 1 else if even f then f else f + 1)"

definition py_round :: "nat \<Rightarrow> real \<Rightarrow> real" where
  "py_round d x = of_int (round_half_even (x * 10 ^ d)) / 10 ^ d"

text \<open>\<^verbatim>\<open>Series.fillna(v)\<close> with a scalar.\<close>

definition fillna :: "'a \<Rightarrow> 'a option list \<Rightarrow> 'a list" where
  "fillna d col = map (\<lambda>v. case v of None \<Rightarrow> d | Some x \<Rightarrow> x) col"

section \<open>build_training_data.py\<close>

text \<open>
  The columns \<^verbatim>\<open>fetch_retired_sets\<close> selects from \<^verbatim>\<open>brickset_sets\<close>, and the columns of
  \<^verbatim>\<open>price_snapshots\<close> that the aggregator reads (the query keeps non-null prices only).
\<close>

record set_row =
  set_number :: string
  exit_date :: int
  uk_retail_price :: real

record snapshot =
  snap_set_num :: string
  snap_date :: int
  price_gbp :: real

datatype quality_tag = Good | Partial | Insufficient

record training_row =
  set_num :: string
  tr_exit_date :: int
  rrp_gbp :: real
  price_at_retirement :: "real option"
  price_6m :: "real option"
  price_1yr :: "real option"
  price_2yr :: "real option"
  price_3yr :: "real option"
  target_6m :: "real option"
  target_1yr :: "real option"
  target_2yr :: "real option"
  target_3yr :: "real option"
  data_quality :: quality_tag
  snapshot_count :: nat

definition MIN_SNAPSHOTS_PER_WINDOW :: nat where
  "MIN_SNAPSHOTS_PER_WINDOW = 3"

definition MILESTONES :: "(string \<times> int \<times> int) list" where
  "MILESTONES = [(''retirement'', 0, 15), (''6m'', 180, 30), (''1yr'', 365, 30),
                 (''2yr'', 730, 30), (''3yr'', 1095, 30)]"

definition WINSOR_LOW :: real where "WINSOR_LOW = 2 / 100"
definition WINSOR_HIGH :: real where "WINSOR_HIGH = 98 / 100"

text \<open>
  The body of the loop over \<^verbatim>\<open>MILESTONES.items()\<close> in \<^verbatim>\<open>compute_milestone_prices\<close>:
  the snapshots of the set inside the closed window, and their median when at least
  \<^verbatim>\<open>MIN_SNAPSHOTS_PER_WINDOW\<close> of them qualify.
\<close>

definition window_snaps :: "int \<Rightarrow> int \<Rightarrow> int \<Rightarrow> snapshot list \<Rightarrow> snapshot list" where
  "window_snaps ed centre_days half_width set_snaps =
     (let window_start = ed + (centre_days - half_width);
          window_end = ed + (centre_days + half_width)
      in filter (\<lambda>s. snap_date s \<ge> window_start \<and> snap_date s \<le> window_end) set_snaps)"

definition milestone_price :: "int \<Rightarrow> snapshot list \<Rightarrow> int \<Rightarrow> int \<Rightarrow> real option" where
  "milestone_price ed set_snaps centre_days half_width =
     (let w = window_snaps ed centre_days half_width set_snaps
      in if length w \<ge> MIN_SNAPSHOTS_PER_WINDOW then pd_median (map price_gbp w) else None)"

definition milestone_prices :: "int \<Rightarrow> snapshot list \<Rightarrow> (string \<times> real option) list" where
  "milestone_prices ed set_snaps =
     map (\<lambda>(milestone, centre_days, half_width).
            (milestone, milestone_price ed set_snaps centre_days half_width)) MILESTONES"

text \<open>\<^verbatim>\<open>prices.get(k)\<close>: a missing key and a stored \<^verbatim>\<open>None\<close> both read as \<^verbatim>\<open>None\<close>.\<close>

definition prices_get :: "(string \<times> real option) list \<Rightarrow> string \<Rightarrow> real option" where
  "prices_get prices k = (case map_of prices k of None \<Rightarrow> None | Some v \<Rightarrow> v)"

definition log_target :: "real option \<Rightarrow> real \<Rightarrow> real option" where
  "log_target price rrp =
     (case price of None \<Rightarrow> None
      | Some p \<Rightarrow> if p > 0 \<and> rrp > 0 then Some (ln (p / rrp)) else None)"

definition quality_of :: "real option list \<Rightarrow> quality_tag" where
  "quality_of targets =
     (let target_count = length (filter (\<lambda>v. v \<noteq> None) targets)
      in if target_count = 4 then Good else if target_count \<ge> 1 then Partial else Insufficient)"

text \<open>
  One iteration of \<^verbatim>\<open>for _, row in sets_df.iterrows()\<close>: \<open>None\<close> is the \<^verbatim>\<open>continue\<close>
  taken when the set has no snapshot, \<open>Some r\<close> the record appended to \<^verbatim>\<open>results\<close>.
\<close>

definition compute_row :: "set_row \<Rightarrow> snapshot list \<Rightarrow> training_row option" where
  "compute_row row snapshots_df =
     (let rrp = uk_retail_price row;
          set_snaps = filter (\<lambda>s. snap_set_num s = set_number row) snapshots_df
      in if set_snaps = [] then None
         else
           let prices = milestone_prices (exit_date row) set_snaps;
               t6 = log_target (prices_get prices ''6m'') rrp;
               t1 = log_target (prices_get prices ''1yr'') rrp;
               t2 = log_target (prices_get prices ''2yr'') rrp;
               t3 = log_target (prices_get prices ''3yr'') rrp
           in Some \<lparr> set_num = set_number row, tr_exit_date = exit_date row, rrp_gbp = rrp,
                     price_at_retirement = prices_get prices ''retirement'',
                     price_6m = prices_get prices ''6m'',
                     price_1yr = prices_get prices ''1yr'',
                     price_2yr = prices_get prices ''2yr'',
                     price_3yr = prices_get prices ''3yr'',
                     target_6m = t6, target_1yr = t1, target_2yr = t2, target_3yr = t3,
                     data_quality = quality_of [t6, t1, t2, t3],
                     snapshot_count = length set_snaps \<rparr>)"

fun compute_milestone_prices :: "set_row list \<Rightarrow> snapshot list \<Rightarrow> training_row list" where
  "compute_milestone_prices [] snapshots_df = []"
| "compute_milestone_prices (row # sets_df) snapshots_df =
     (case compute_row row snapshots_df of
        None \<Rightarrow> compute_milestone_prices sets_df snapshots_df
      | Some r \<Rightarrow> r # compute_milestone_prices sets_df snapshots_df)"

text \<open>
  \<^verbatim>\<open>winsorise_targets\<close>: one pass of the loop over the four target columns, on one column,
  and the four passes in the order of \<^verbatim>\<open>target_cols\<close>, each writing its column back.
\<close>

definition winsorise_col :: "real option list \<Rightarrow> real option list" where
  "winsorise_col col =
     (let valid = List.map_filter id col
      in if length valid < 10 then col
         else let low = pd_quantile WINSOR_LOW valid; high = pd_quantile WINSOR_HIGH valid
              in map (map_option (clip low high)) col)"

definition set_col :: "('v \<Rightarrow> 'r \<Rightarrow> 'r) \<Rightarrow> 'v list \<Rightarrow> 'r list \<Rightarrow> 'r list" where
  "set_col upd vals df = map (\<lambda>(v, r). upd v r) (zip vals df)"

definition winsorise_targets :: "training_row list \<Rightarrow> training_row list" where
  "winsorise_targets df =
     (let df1 = set_col (\<lambda>v r. r\<lparr>target_6m := v\<rparr>) (winsorise_col (map target_6m df)) df;
          df2 = set_col (\<lambda>v r. r\<lparr>target_1yr := v\<rparr>) (winsorise_col (map target_1yr df1)) df1;
          df3 = set_col (\<lambda>v r. r\<lparr>target_2yr := v\<rparr>) (winsorise_col (map target_2yr df2)) df2
      in set_col (\<lambda>v r. r\<lparr>target_3yr := v\<rparr>) (winsorise_col (map target_3yr df3)) df3)"

text \<open>
  \<^verbatim>\<open>upsert_training_data\<close>: the rows kept (data_quality good or partial), deduplicated on
  \<^verbatim>\<open>set_num\<close> with the first occurrence kept; the result is the list of records written.
  \<^verbatim>\<open>run\<close> returns before any write when either input frame is empty.
\<close>

fun dedup_by_set_num :: "string list \<Rightarrow> training_row list \<Rightarrow> training_row list" where
  "dedup_by_set_num seen [] = []"
| "dedup_by_set_num seen (r # records) =
     (if set_num r \<in> set seen then dedup_by_set_num seen records
      else r # dedup_by_set_num (set_num r # seen) records)"

definition upsert_training_data :: "training_row list \<Rightarrow> training_row list" where
  "upsert_training_data df =
     (let usable = filter (\<lambda>r. data_quality r \<in> {Good, Partial}) df
      in dedup_by_set_num [] usable)"

definition run_build :: "set_row list \<Rightarrow> snapshot list \<Rightarrow> training_row list" where
  "run_build sets_df snapshots_df =
     (if sets_df = [] then []
      else if snapshots_df = [] then []
      else upsert_training_data (winsorise_targets (compute_milestone_prices sets_df snapshots_df)))"

section \<open>engineer_features.py\<close>

datatype horizon = H6m | H1yr | H2yr | H3yr

definition HORIZONS :: "horizon list" where
  "HORIZONS = [H6m, H1yr, H2yr, H3yr]"

text \<open>
  A row of the frame \<^verbatim>\<open>fetch_training_sets\<close> returns: the training row merged with the
  set's metadata. Of the metadata only \<^verbatim>\<open>theme\<close> is read by the functions modelled here.
\<close>

record merged_row = training_row +
  theme :: "string option"

fun target_col :: "horizon \<Rightarrow> merged_row \<Rightarrow> real option" where
  "target_col H6m = target_6m"
| "target_col H1yr = target_1yr"
| "target_col H2yr = target_2yr"
| "target_col H3yr = target_3yr"

text \<open>
  The four theme-historical columns of one horizon, for one row. Each cell is nullable;
  the sample size is the integer the source appends to \<^verbatim>\<open>ns\<close>.
\<close>

record theme_feats =
  theme_mean_log :: "real option"
  theme_median_log :: "real option"
  theme_std_log :: "real option"
  theme_sample_size :: "nat option"

text \<open>
  The body of \<^verbatim>\<open>for idx, row in df_sorted.iterrows()\<close> in
  \<^verbatim>\<open>compute_theme_historical_features\<close>: the prior pool is filtered from the sorted frame
  by theme, strict date inequality and a non-null target.
\<close>

definition prior_rows :: "horizon \<Rightarrow> merged_row list \<Rightarrow> string \<Rightarrow> int \<Rightarrow> merged_row list" where
  "prior_rows h df_sorted th ed =
     filter (\<lambda>r. theme r = Some th \<and> tr_exit_date r < ed \<and> target_col h r \<noteq> None) df_sorted"

definition theme_features_row :: "horizon \<Rightarrow> merged_row list \<Rightarrow> merged_row \<Rightarrow> theme_feats" where
  "theme_features_row h df_sorted row =
     (case theme row of
        None \<Rightarrow> \<lparr> theme_mean_log = None, theme_median_log = None, theme_std_log = None,
                  theme_sample_size = Some 0 \<rparr>
      | Some th \<Rightarrow>
          let prior = prior_rows h df_sorted th (tr_exit_date row)
          in if length prior \<ge> 3
             then let vals = List.map_filter (target_col h) prior
                  in \<lparr> theme_mean_log = pd_mean vals, theme_median_log = pd_median vals,
                       theme_std_log = pd_std vals, theme_sample_size = Some (length prior) \<rparr>
             else \<lparr> theme_mean_log = None, theme_median_log = None, theme_std_log = None,
                    theme_sample_size = Some (length prior) \<rparr>)"

text \<open>
  \<^verbatim>\<open>compute_theme_historical_features\<close>, for one horizon. The frame is sorted by exit date
  (\<^verbatim>\<open>sort_values\<close>, modelled by the stable \<^const>\<open>sort_key\<close>) and its index reset; the four
  lists are filled in the order of the sorted frame and assigned to \<^verbatim>\<open>features\<close>
  positionally. \<^verbatim>\<open>features.index = df_sorted.index\<close> labels them \<open>0, 1, 2, \<dots>\<close> and
  \<^verbatim>\<open>features.reindex(df.index)\<close> reads them back under the labels of \<^verbatim>\<open>df\<close>, which are
  \<open>0, 1, 2, \<dots>\<close> again. So the entry at position \<open>i\<close> of the result is the one that
  \<^verbatim>\<open>features.loc[i]\<close> returns, and the one \<^verbatim>\<open>update_features_in_db\<close> stores for row \<open>i\<close> of
  \<^verbatim>\<open>df\<close>.
\<close>

definition compute_theme_historical_features :: "merged_row list \<Rightarrow> horizon \<Rightarrow> theme_feats list" where
  "compute_theme_historical_features df h =
     (let df_sorted = sort_key tr_exit_date df
      in map (theme_features_row h df_sorted) df_sorted)"

text \<open>
  \<^verbatim>\<open>np.polyfit(x, y, 1)[0]\<close>, the slope of the least-squares line, and \<^verbatim>\<open>ndarray.std()\<close>,
  the population standard deviation.
\<close>

definition polyfit_slope :: "real list \<Rightarrow> real list \<Rightarrow> real" where
  "polyfit_slope xs ys =
     (let n = real (length xs); mx = sum_list xs / n; my = sum_list ys / n
      in sum_list (map (\<lambda>(x, y). (x - mx) * (y - my)) (zip xs ys))
           / sum_list (map (\<lambda>x. (x - mx)\<^sup>2) xs))"

definition np_std :: "real list \<Rightarrow> real" where
  "np_std xs = sqrt (sq_dev xs / real (length xs))"

text \<open>
  The momentum and volatility blocks of \<^verbatim>\<open>compute_price_trajectory_features\<close>, for one
  training row with exit date \<open>ed\<close>; \<open>s\<close> are the snapshots of its set.
\<close>

definition price_momentum_90d :: "int \<Rightarrow> snapshot list \<Rightarrow> real option" where
  "price_momentum_90d ed s =
     (let post_90 = filter (\<lambda>x. snap_date x > ed \<and> snap_date x \<le> ed + 90) s
      in if length post_90 \<ge> 3
         then let days = map (\<lambda>x. real_of_int (snap_date x - ed)) post_90;
                  prices = map price_gbp post_90
              in if np_std days > 0 then Some (polyfit_slope days prices) else None
         else None)"

definition price_volatility_180d :: "int \<Rightarrow> snapshot list \<Rightarrow> real option" where
  "price_volatility_180d ed s =
     (let post_180 = filter (\<lambda>x. snap_date x > ed \<and> snap_date x \<le> ed + 180) s
      in if length post_180 \<ge> 3 then pd_std (map price_gbp post_180) else None)"

section \<open>train_models.py: imputation before training\<close>

text \<open>
  \<^verbatim>\<open>X[col] = X[col].fillna(X[col].median())\<close> on one column: the median skips nulls, and
  \<^verbatim>\<open>fillna\<close> with a NaN median (a column without any value) fills nothing. The loop of
  \<^verbatim>\<open>train_for_horizon\<close> applies it to every column of the feature matrix.
\<close>

definition fillna_median :: "real option list \<Rightarrow> real option list" where
  "fillna_median col =
     (case pd_median (List.map_filter id col) of
        None \<Rightarrow> col
      | Some m \<Rightarrow> map (\<lambda>v. case v of None \<Rightarrow> Some m | Some x \<Rightarrow> Some x) col)"

definition impute_features :: "(string \<times> real option list) list \<Rightarrow> (string \<times> real option list) list" where
  "impute_features X = map (\<lambda>(c, col). (c, fillna_median col)) X"

section \<open>score_sets.py: trajectory features of live sets\<close>

text \<open>
  A snapshot as the scorer reads it: the query does not filter null prices, and
  \<^verbatim>\<open>pd.to_numeric(errors="coerce")\<close> turns an unreadable price into NaN.
\<close>

record active_snapshot =
  as_date :: int
  as_price :: "real option"

text \<open>
  The momentum and volatility blocks of \<^verbatim>\<open>compute_active_trajectory_features\<close>, for the
  group of snapshots of one set. \<open>None\<close> is a cell left unset (NaN after
  \<^verbatim>\<open>pd.to_numeric\<close>); a group without any price is skipped by \<^verbatim>\<open>continue\<close>.
\<close>

definition recent_prices :: "int \<Rightarrow> active_snapshot list \<Rightarrow> real list" where
  "recent_prices days g =
     (let cutoff = Max (set (map as_date g)) - days
      in List.map_filter as_price (filter (\<lambda>s. as_date s \<ge> cutoff) g))"

definition active_price_momentum_90d :: "active_snapshot list \<Rightarrow> real option" where
  "active_price_momentum_90d grp =
     (let g = sort_key as_date grp; prices = List.map_filter as_price g
      in if prices = [] then None
         else let recent_90 = recent_prices 90 g
              in if length recent_90 \<ge> 2
                 then let x = map real [0..<length recent_90]; y = recent_90;
                          slope = polyfit_slope x y;
                          mean_price = sum_list y / real (length y)
                      in Some (if mean_price > 0 then slope / mean_price else 0)
                 else None)"

definition active_price_volatility_180d :: "active_snapshot list \<Rightarrow> real option" where
  "active_price_volatility_180d grp =
     (let g = sort_key as_date grp; prices = List.map_filter as_price g
      in if prices = [] then None
         else let recent_180 = recent_prices 180 g
              in if length recent_180 \<ge> 2
                 then let mean_price = sum_list recent_180 / real (length recent_180)
                      in (if mean_price > 0
                          then map_option (\<lambda>sd. sd / mean_price) (pd_std recent_180)
                          else Some 0)
                 else None)"

section \<open>score_sets.py: loading models and scoring\<close>

datatype quantile = P25 | P50 | P75

text \<open>
  A fitted regressor is the function from the feature vector handed to \<^verbatim>\<open>predict\<close> to the
  predicted log return. The cells of the vector are nullable, as those of a frame are.
\<close>

type_synonym predictor = "real option list \<Rightarrow> real"

text \<open>
  The model directory: for each horizon the content of \<^verbatim>\<open>{horizon}_features.json\<close> and of
  the three \<^verbatim>\<open>{horizon}_{quantile}.pkl\<close> files, \<open>None\<close> for a file that does not exist.
\<close>

record model_store =
  features_file :: "horizon \<Rightarrow> string list option"
  model_file :: "horizon \<Rightarrow> quantile \<Rightarrow> predictor option"

record hdata =
  hd_features :: "string list"
  model_p25 :: predictor
  model_p50 :: predictor
  model_p75 :: predictor

text \<open>
  \<^verbatim>\<open>load_models\<close>: a horizon without its feature list is skipped, and one with fewer than
  three model files is left out; the others are kept in the order of \<^verbatim>\<open>HORIZONS\<close>.
\<close>

definition load_horizon :: "model_store \<Rightarrow> horizon \<Rightarrow> (horizon \<times> hdata) option" where
  "load_horizon store h =
     (case features_file store h of
        None \<Rightarrow> None
      | Some feature_cols \<Rightarrow>
          (case (model_file store h P25, model_file store h P50, model_file store h P75) of
             (Some m25, Some m50, Some m75) \<Rightarrow>
               Some (h, \<lparr> hd_features = feature_cols, model_p25 = m25, model_p50 = m50,
                         model_p75 = m75 \<rparr>)
           | _ \<Rightarrow> None))"

definition load_models :: "model_store \<Rightarrow> (horizon \<times> hdata) list" where
  "load_models store = List.map_filter (load_horizon store) HORIZONS"

text \<open>
  A row of the frame of sets to score (the columns the scorer reads), and a row of the
  feature frame: an association list from column name to nullable value.
\<close>

record item =
  it_set_number :: string
  it_uk_retail_price :: real
  it_pieces :: "int option"

type_synonym feature_row = "(string \<times> real option) list"

text \<open>
  The feature vector of one set for one horizon: the listed columns in order, a column
  the feature frame lacks added as NaN, and then \<^verbatim>\<open>X.fillna(0)\<close>.
\<close>

definition score_vector :: "string list \<Rightarrow> feature_row \<Rightarrow> real option list" where
  "score_vector feature_cols feats =
     (let X = map (\<lambda>c. case map_of feats c of None \<Rightarrow> None | Some v \<Rightarrow> v) feature_cols
      in map (\<lambda>v. case v of None \<Rightarrow> Some 0 | Some x \<Rightarrow> Some x) X)"

definition compute_confidence :: "real \<Rightarrow> real \<Rightarrow> real" where
  "compute_confidence p25 p75 = (let iqr = \<bar>p75 - p25\<bar> in 1 / (1 + iqr))"

text \<open>The five per-horizon keys written into a prediction.\<close>

record hpred =
  predicted_appreciation :: real
  predicted_price_gbp :: real
  pred_p25 :: real
  pred_p75 :: real
  confidence :: real

definition score_horizon :: "hdata \<Rightarrow> feature_row \<Rightarrow> real \<Rightarrow> hpred" where
  "score_horizon hdat feats rrp =
     (let X = score_vector (hd_features hdat) feats;
          p25_log = model_p25 hdat X; p50_log = model_p50 hdat X; p75_log = model_p75 hdat X;
          p25_pct = (exp p25_log - 1) * 100;
          p50_pct = (exp p50_log - 1) * 100;
          p75_pct = (exp p75_log - 1) * 100;
          p50_price = rrp * exp p50_log;
          conf = compute_confidence p25_log p75_log
      in \<lparr> predicted_appreciation = py_round 2 p50_pct,
           predicted_price_gbp = py_round 2 p50_price,
           pred_p25 = py_round 2 p25_pct, pred_p75 = py_round 2 p75_pct,
           confidence = py_round 4 conf \<rparr>)"

text \<open>
  A prediction. The per-horizon keys are kept as an association list in the order of the
  loaded models; a key of the dictionary that may be absent is an option. The model
  version, the timestamp, the trajectory diagnostics and the two R-squared values read from
  the run table are left out: nothing modelled here depends on them.
\<close>

record prediction =
  p_set_num :: string
  horizon_fields :: "(horizon \<times> hpred) list"
  expected_profit_1yr_gbp :: "real option"
  expected_profit_3yr_gbp :: "real option"
  risk_adjusted_score :: real
  theme_sample_size_1yr :: "real option option"
  investment_score :: "real option"
  risk_factors :: "string list option"

text \<open>The first loop of \<^verbatim>\<open>score_sets\<close>, for one set.\<close>

definition score_item :: "(horizon \<times> hdata) list \<Rightarrow> feature_row \<Rightarrow> item \<Rightarrow> prediction" where
  "score_item models feats row =
     (let rrp = it_uk_retail_price row;
          hf = map (\<lambda>(h, hdat). (h, score_horizon hdat feats rrp)) models;
          app_1yr_opt = map_option predicted_appreciation (map_of hf H1yr);
          app_3yr_opt = map_option predicted_appreciation (map_of hf H3yr);
          conf_1yr = (case map_of hf H1yr of None \<Rightarrow> 1 / 2 | Some p \<Rightarrow> confidence p);
          app_1yr = (case app_1yr_opt of None \<Rightarrow> 0 | Some a \<Rightarrow> a)
      in \<lparr> p_set_num = it_set_number row,
           horizon_fields = hf,
           expected_profit_1yr_gbp = map_option (\<lambda>a. py_round 2 (rrp * (a / 100))) app_1yr_opt,
           expected_profit_3yr_gbp = map_option (\<lambda>a. py_round 2 (rrp * (a / 100))) app_3yr_opt,
           risk_adjusted_score = (if app_1yr \<noteq> 0 then py_round 4 (app_1yr * conf_1yr) else 0),
           theme_sample_size_1yr =
             Some (case map_of feats ''theme_sample_size_1yr'' of None \<Rightarrow> Some 0 | Some v \<Rightarrow> v),
           investment_score = None,
           risk_factors = None \<rparr>)"

text \<open>
  \<^verbatim>\<open>Series.rank(pct=True)\<close>: the average rank of each non-null value among the non-null
  values, divided by their number; a null stays null.
\<close>

definition rank_pct :: "real option list \<Rightarrow> real option list" where
  "rank_pct col =
     (let valid = List.map_filter id col
      in map (map_option (\<lambda>v. (real (length (filter (\<lambda>x. x < v) valid))
                                  + (real (length (filter (\<lambda>x. x = v) valid)) + 1) / 2)
                                 / real (length valid))) col)"

definition W_appreciation_1yr :: real where "W_appreciation_1yr = 30 / 100"
definition W_confidence_1yr :: real where "W_confidence_1yr = 25 / 100"
definition W_expected_profit_1yr :: real where "W_expected_profit_1yr = 25 / 100"
definition W_risk_adjusted :: real where "W_risk_adjusted = 20 / 100"

text \<open>The columns of \<^verbatim>\<open>pred_df\<close> the composite score reads.\<close>

definition col_appreciation_1yr :: "prediction list \<Rightarrow> real option list" where
  "col_appreciation_1yr preds =
     map (\<lambda>p. map_option predicted_appreciation (map_of (horizon_fields p) H1yr)) preds"

definition col_confidence_1yr :: "prediction list \<Rightarrow> real option list" where
  "col_confidence_1yr preds =
     map (\<lambda>p. map_option confidence (map_of (horizon_fields p) H1yr)) preds"

definition composite :: "prediction list \<Rightarrow> real list" where
  "composite preds =
     (let app_rank = fillna (1 / 2) (rank_pct (col_appreciation_1yr preds));
          profit_rank = fillna (1 / 2) (rank_pct (map expected_profit_1yr_gbp preds));
          risk_rank = fillna (1 / 2) (rank_pct (map (\<lambda>p. Some (risk_adjusted_score p)) preds));
          conf_vals = fillna (1 / 2) (col_confidence_1yr preds)
      in map (\<lambda>i. (W_appreciation_1yr * app_rank ! i
                    + W_confidence_1yr * conf_vals ! i
                    + W_expected_profit_1yr * profit_rank ! i
                    + W_risk_adjusted * risk_rank ! i) * 10) [0..<length preds])"

text \<open>\<^verbatim>\<open>assess_risk_factors\<close>, reduced to the names of the factors raised.\<close>

definition assess_risk_factors :: "item \<Rightarrow> prediction \<Rightarrow> string list" where
  "assess_risk_factors row p =
     (let rrp = it_uk_retail_price row;
          pieces = (case it_pieces row of None \<Rightarrow> 0 | Some n \<Rightarrow> n);
          theme_n = (case theme_sample_size_1yr p of None \<Rightarrow> Some 0 | Some v \<Rightarrow> v);
          pred_1yr = map_option predicted_appreciation (map_of (horizon_fields p) H1yr);
          conf_1yr = map_option confidence (map_of (horizon_fields p) H1yr)
      in (if rrp > 200 then [''high_rrp''] else [])
         @ (if pieces < 100 \<and> rrp > 30 then [''low_piece_count''] else [])
         @ (case theme_n of None \<Rightarrow> []
            | Some n \<Rightarrow> if n \<noteq> 0 \<and> n < 5 then [''thin_theme_data''] else [])
         @ (case pred_1yr of None \<Rightarrow> []
            | Some a \<Rightarrow> if a < 0 then [''negative_forecast''] else [])
         @ (case conf_1yr of None \<Rightarrow> []
            | Some c \<Rightarrow> if c < 3 / 10 then [''high_uncertainty''] else []))"

text \<open>
  \<^verbatim>\<open>score_sets\<close>: every set is scored through the loaded horizons; if the batch is not
  empty and the 1-year appreciation column exists, the composite score and the risk
  factors are added to every prediction and the temporary sample-size key is removed.
\<close>

definition finish_prediction :: "real list \<Rightarrow> item list \<Rightarrow> nat \<Rightarrow> prediction \<Rightarrow> prediction" where
  "finish_prediction cs df i p =
     p\<lparr> investment_score := Some (py_round 2 (cs ! i)),
        risk_factors := Some (assess_risk_factors (df ! i)
                                (p\<lparr> investment_score := Some (py_round 2 (cs ! i)) \<rparr>)),
        theme_sample_size_1yr := None \<rparr>"

definition score_sets :: "item list \<Rightarrow> feature_row list \<Rightarrow> (horizon \<times> hdata) list \<Rightarrow> prediction list" where
  "score_sets df features models =
     (let predictions = map (\<lambda>(row, feats). score_item models feats row) (zip df features)
      in if predictions \<noteq> [] \<and> list_ex (\<lambda>p. map_of (horizon_fields p) H1yr \<noteq> None) predictions
         then map (\<lambda>i. finish_prediction (composite predictions) df i (predictions ! i))
                [0..<length predictions]
         else predictions)"

text \<open>
  \<^verbatim>\<open>run\<close>: nothing is scored when no horizon could be loaded or no set was fetched; else the
  result of \<^verbatim>\<open>score_sets\<close> is what is written. The feature frame is an argument.
\<close>

definition run_scoring :: "model_store \<Rightarrow> item list \<Rightarrow> feature_row list \<Rightarrow> prediction list" where
  "run_scoring store df features =
     (let models = load_models store
      in if models = [] then []
         else if df = [] then []
         else score_sets df features models)"

text \<open>
  For the statement of the claim on missing model files: a prediction without the keys
  that belong to one horizon, which are its five per-horizon keys and, for the 3-year
  horizon, the expected 3-year profit derived from them.
\<close>

definition drop_horizon_fields :: "horizon \<Rightarrow> prediction \<Rightarrow> prediction" where
  "drop_horizon_fields h p =
     p\<lparr> horizon_fields := filter (\<lambda>(k, v). k \<noteq> h) (horizon_fields p),
        expected_profit_3yr_gbp := (if h = H3yr then None else expected_profit_3yr_gbp p) \<rparr>"

section \<open>validate_model.py: quantile calibration\<close>














section \<open>Concrete inputs\<close>

definition mk_snap :: "string \<Rightarrow> int \<Rightarrow> real \<Rightarrow> snapshot" where
  "mk_snap n d p = \<lparr> snap_set_num = n, snap_date = d, price_gbp = p \<rparr>"

definition ex_sets :: "set_row list" where
  "ex_sets = [\<lparr>set_number = ''75192'', exit_date = 1000, uk_retail_price = 50\<rparr>,
              \<lparr>set_number = ''10001'', exit_date = 1200, uk_retail_price = 20\<rparr>]"

definition ex_snaps :: "snapshot list" where
  "ex_snaps = [mk_snap ''75192'' 990 40, mk_snap ''75192'' 1005 45, mk_snap ''75192'' 1020 48,
               mk_snap ''75192'' 1350 100, mk_snap ''75192'' 1365 150, mk_snap ''75192'' 1380 200]"

definition ex_row :: training_row where
  "ex_row = \<lparr> set_num = ''75192'', tr_exit_date = 1000, rrp_gbp = 50,
               price_at_retirement = None, price_6m = None, price_1yr = Some 150,
               price_2yr = None, price_3yr = None,
               target_6m = None, target_1yr = Some (ln 3), target_2yr = None, target_3yr = None,
               data_quality = Partial, snapshot_count = 6 \<rparr>"

definition mk_trow :: "real option \<Rightarrow> training_row" where
  "mk_trow t = \<lparr> set_num = ''s'', tr_exit_date = 0, rrp_gbp = 10,
               price_at_retirement = None, price_6m = t, price_1yr = None,
               price_2yr = None, price_3yr = None,
               target_6m = t, target_1yr = None, target_2yr = None, target_3yr = None,
               data_quality = Partial, snapshot_count = 3 \<rparr>"

definition ex_wins_df :: "training_row list" where
  "ex_wins_df = map mk_trow [Some 0, Some 1, Some 2, Some 3, Some 4, Some 5, Some 6, Some 7,
                             Some 8, Some 9]"

definition mk_mrow :: "string \<Rightarrow> string option \<Rightarrow> int \<Rightarrow> real option \<Rightarrow> merged_row" where
  "mk_mrow n th ed t = \<lparr> set_num = n, tr_exit_date = ed, rrp_gbp = 10,
               price_at_retirement = None, price_6m = None, price_1yr = None,
               price_2yr = None, price_3yr = None,
               target_6m = None, target_1yr = t, target_2yr = None, target_3yr = None,
               data_quality = Partial, snapshot_count = 3, theme = th \<rparr>"

definition ex_unsorted_df :: "merged_row list" where
  "ex_unsorted_df =
     [mk_mrow ''d'' (Some ''City'') 40 (Some 4), mk_mrow ''a'' (Some ''City'') 10 (Some 1),
      mk_mrow ''b'' (Some ''City'') 20 (Some 2), mk_mrow ''c'' (Some ''City'') 30 (Some 3)]"


definition ex_obs :: "snapshot list" where
  "ex_obs = [mk_snap ''a'' 1 10, mk_snap ''a'' 2 20, mk_snap ''a'' 3 30]"

definition ex_active_obs :: "active_snapshot list" where
  "ex_active_obs = [\<lparr>as_date = 1, as_price = Some 10\<rparr>, \<lparr>as_date = 2, as_price = Some 20\<rparr>,
                    \<lparr>as_date = 3, as_price = Some 30\<rparr>]"

definition ex_uneven_obs :: "active_snapshot list" where
  "ex_uneven_obs = [\<lparr>as_date = 0, as_price = Some 10\<rparr>, \<lparr>as_date = 1, as_price = Some 20\<rparr>,
                    \<lparr>as_date = 10, as_price = Some 30\<rparr>]"

definition ex_col :: "real option list" where
  "ex_col = [Some 1, None, Some 3]"

definition ex_feats :: feature_row where
  "ex_feats = [(''rating'', None), (''rrp_gbp'', Some 10)]"


definition ex_hdata :: hdata where
  "ex_hdata = \<lparr> hd_features = [''rating'', ''rrp_gbp''], model_p25 = (\<lambda>X. 0),
                 model_p50 = (\<lambda>X. 0), model_p75 = (\<lambda>X. 1 / 2) \<rparr>"

definition ex_item :: item where
  "ex_item = \<lparr> it_set_number = ''10311'', it_uk_retail_price = 50, it_pieces = Some 500 \<rparr>"

definition ex_models :: "(horizon \<times> hdata) list" where
  "ex_models = [(H6m, ex_hdata), (H1yr, ex_hdata)]"

definition ex_store_full :: model_store where
  "ex_store_full =
     \<lparr> features_file = (\<lambda>h. if h = H6m \<or> h = H1yr then Some [''rating'', ''rrp_gbp''] else None),
       model_file = (\<lambda>h q. if h = H6m \<or> h = H1yr
                             then Some (case q of P25 \<Rightarrow> (\<lambda>X. 0) | P50 \<Rightarrow> (\<lambda>X. 0)
                                        | P75 \<Rightarrow> (\<lambda>X. 1 / 2))
                             else None) \<rparr>"

definition ex_store_no_1yr_p25 :: model_store where
  "ex_store_no_1yr_p25 =
     ex_store_full\<lparr> model_file := (\<lambda>h q. if h = H1yr \<and> q = P25 then None
                                         else model_file ex_store_full h q) \<rparr>"

definition ex_store_no_6m :: model_store where
  "ex_store_no_6m =
     ex_store_full\<lparr> features_file := (\<lambda>h. if h = H6m then None
                                          else features_file ex_store_full h) \<rparr>"

section \<open>Properties of the milestone aggregator\<close>

lemma compute_milestone_prices_mem:
  "r \<in> set (compute_milestone_prices sets_df snapshots_df) \<longleftrightarrow>
     (\<exists>row \<in> set sets_df. compute_row row snapshots_df = Some r)"
  by (induction sets_df) (auto split: option.splits)

lemma compute_row_SomeD:
  assumes "compute_row row snapshots_df = Some r"
  shows "set_num r = set_number row"
    and "snapshot_count r = length (filter (\<lambda>s. snap_set_num s = set_number row) snapshots_df)"
    and "filter (\<lambda>s. snap_set_num s = set_number row) snapshots_df \<noteq> []"
  using assms by (auto simp: compute_row_def Let_def split: if_splits)

lemma prices_get_milestones:
  "prices_get (milestone_prices ed ss) ''retirement'' = milestone_price ed ss 0 15"
  "prices_get (milestone_prices ed ss) ''6m'' = milestone_price ed ss 180 30"
  "prices_get (milestone_prices ed ss) ''1yr'' = milestone_price ed ss 365 30"
  "prices_get (milestone_prices ed ss) ''2yr'' = milestone_price ed ss 730 30"
  "prices_get (milestone_prices ed ss) ''3yr'' = milestone_price ed ss 1095 30"
  by (simp_all add: prices_get_def milestone_prices_def MILESTONES_def)

lemma milestone_price_closed_window:
  "milestone_price ed ss c hw =
     (if 3 \<le> length (filter (\<lambda>s. ed + c - hw \<le> snap_date s \<and> snap_date s \<le> ed + c + hw) ss)
      then pd_median (map price_gbp
             (filter (\<lambda>s. ed + c - hw \<le> snap_date s \<and> snap_date s \<le> ed + c + hw) ss))
      else None)"
proof -
  have eq: "window_snaps ed c hw ss =
      filter (\<lambda>s. ed + c - hw \<le> snap_date s \<and> snap_date s \<le> ed + c + hw) ss"
    unfolding window_snaps_def Let_def by (rule filter_cong) auto
  show ?thesis
    unfolding milestone_price_def eq MIN_SNAPSHOTS_PER_WINDOW_def Let_def by simp
qed

lemma compute_row_fields:
  assumes "compute_row row snapshots_df = Some r"
  shows "price_at_retirement r = milestone_price (exit_date row)
           (filter (\<lambda>s. snap_set_num s = set_number row) snapshots_df) 0 15"
    and "price_6m r = milestone_price (exit_date row)
           (filter (\<lambda>s. snap_set_num s = set_number row) snapshots_df) 180 30"
    and "price_1yr r = milestone_price (exit_date row)
           (filter (\<lambda>s. snap_set_num s = set_number row) snapshots_df) 365 30"
    and "price_2yr r = milestone_price (exit_date row)
           (filter (\<lambda>s. snap_set_num s = set_number row) snapshots_df) 730 30"
    and "price_3yr r = milestone_price (exit_date row)
           (filter (\<lambda>s. snap_set_num s = set_number row) snapshots_df) 1095 30"
    and "target_6m r = log_target (price_6m r) (uk_retail_price row)"
    and "target_1yr r = log_target (price_1yr r) (uk_retail_price row)"
    and "target_2yr r = log_target (price_2yr r) (uk_retail_price row)"
    and "target_3yr r = log_target (price_3yr r) (uk_retail_price row)"
  using assms
  by (auto simp: compute_row_def Let_def prices_get_milestones split: if_splits)

lemma ex_row_computed: "compute_milestone_prices ex_sets ex_snaps = [ex_row]"
  apply (simp add: ex_sets_def ex_snaps_def mk_snap_def compute_row_def Let_def prices_get_milestones
      milestone_price_closed_window pd_median_def log_target_def quality_of_def ex_row_def)
  done

text \<open>
  Claim C2. Every row the aggregator produces belongs to a set of the input, and its five
  milestone prices are the medians of that set's snapshots inside the closed windows
  centred at exit date + 0, 180, 365, 730 and 1095 days with half-widths 15, 30, 30, 30
  and 30 days, when at least three snapshots fall inside, and null otherwise. Each forward
  target is \<open>ln (milestone price / launch price)\<close> when the milestone is defined and both
  prices are positive, and null otherwise. For observations 10 days before, 5 and 20 days
  after retirement, the \<open>\<plusminus>15\<close>-day window keeps exactly the first two and the milestone is
  null.
\<close>
theorem milestone_window_median_and_log_target:
  assumes "r \<in> set (compute_milestone_prices sets_df snapshots_df)"
  shows "(\<exists>row \<in> set sets_df. set_num r = set_number row \<and>
     (let obs = filter (\<lambda>s. snap_set_num s = set_number row) snapshots_df;
          ed = exit_date row;
          win = (\<lambda>c hw. filter (\<lambda>s. ed + c - hw \<le> snap_date s \<and> snap_date s \<le> ed + c + hw) obs);
          med = (\<lambda>c hw. if 3 \<le> length (win c hw)
                          then pd_median (map price_gbp (win c hw)) else None);
          tgt = (\<lambda>p. case p of None \<Rightarrow> None
                      | Some v \<Rightarrow> if 0 < v \<and> 0 < uk_retail_price row
                                  then Some (ln (v / uk_retail_price row)) else None)
      in price_at_retirement r = med 0 15 \<and> price_6m r = med 180 30
         \<and> price_1yr r = med 365 30 \<and> price_2yr r = med 730 30 \<and> price_3yr r = med 1095 30
         \<and> target_6m r = tgt (price_6m r) \<and> target_1yr r = tgt (price_1yr r)
         \<and> target_2yr r = tgt (price_2yr r) \<and> target_3yr r = tgt (price_3yr r)))
   \<and> window_snaps d 0 15 [mk_snap n (d - 10) p1, mk_snap n (d + 5) p2, mk_snap n (d + 20) p3]
         = [mk_snap n (d - 10) p1, mk_snap n (d + 5) p2]
   \<and> milestone_price d [mk_snap n (d - 10) p1, mk_snap n (d + 5) p2, mk_snap n (d + 20) p3] 0 15
         = None"
proof -
  from assms obtain row where row: "row \<in> set sets_df" "compute_row row snapshots_df = Some r"
    by (auto simp: compute_milestone_prices_mem)
  have tgt: "log_target p rrp = (case p of None \<Rightarrow> None
                | Some v \<Rightarrow> if 0 < v \<and> 0 < rrp then Some (ln (v / rrp)) else None)" for p rrp
    by (simp add: log_target_def)
  have "set_num r = set_number row \<and>
     (let obs = filter (\<lambda>s. snap_set_num s = set_number row) snapshots_df;
          ed = exit_date row;
          win = (\<lambda>c hw. filter (\<lambda>s. ed + c - hw \<le> snap_date s \<and> snap_date s \<le> ed + c + hw) obs);
          med = (\<lambda>c hw. if 3 \<le> length (win c hw)
                          then pd_median (map price_gbp (win c hw)) else None);
          tgt = (\<lambda>p. case p of None \<Rightarrow> None
                      | Some v \<Rightarrow> if 0 < v \<and> 0 < uk_retail_price row
                                  then Some (ln (v / uk_retail_price row)) else None)
      in price_at_retirement r = med 0 15 \<and> price_6m r = med 180 30
         \<and> price_1yr r = med 365 30 \<and> price_2yr r = med 730 30 \<and> price_3yr r = med 1095 30
         \<and> target_6m r = tgt (price_6m r) \<and> target_1yr r = tgt (price_1yr r)
         \<and> target_2yr r = tgt (price_2yr r) \<and> target_3yr r = tgt (price_3yr r))"
    unfolding Let_def
    using compute_row_SomeD(1)[OF row(2)] compute_row_fields[OF row(2)]
    by (simp add: milestone_price_closed_window tgt)
  with row(1) have A: "\<exists>row \<in> set sets_df. set_num r = set_number row \<and>
     (let obs = filter (\<lambda>s. snap_set_num s = set_number row) snapshots_df;
          ed = exit_date row;
          win = (\<lambda>c hw. filter (\<lambda>s. ed + c - hw \<le> snap_date s \<and> snap_date s \<le> ed + c + hw) obs);
          med = (\<lambda>c hw. if 3 \<le> length (win c hw)
                          then pd_median (map price_gbp (win c hw)) else None);
          tgt = (\<lambda>p. case p of None \<Rightarrow> None
                      | Some v \<Rightarrow> if 0 < v \<and> 0 < uk_retail_price row
                                  then Some (ln (v / uk_retail_price row)) else None)
      in price_at_retirement r = med 0 15 \<and> price_6m r = med 180 30
         \<and> price_1yr r = med 365 30 \<and> price_2yr r = med 730 30 \<and> price_3yr r = med 1095 30
         \<and> target_6m r = tgt (price_6m r) \<and> target_1yr r = tgt (price_1yr r)
         \<and> target_2yr r = tgt (price_2yr r) \<and> target_3yr r = tgt (price_3yr r))"
    by blast
  have B: "window_snaps d 0 15 [mk_snap n (d - 10) p1, mk_snap n (d + 5) p2, mk_snap n (d + 20) p3]
         = [mk_snap n (d - 10) p1, mk_snap n (d + 5) p2]"
    by (simp add: window_snaps_def mk_snap_def)
  have C: "milestone_price d [mk_snap n (d - 10) p1, mk_snap n (d + 5) p2, mk_snap n (d + 20) p3] 0 15
         = None"
    using B by (simp add: milestone_price_def MIN_SNAPSHOTS_PER_WINDOW_def)
  from A B C show ?thesis by blast
qed

theorem milestone_window_median_and_log_target_witness:
  "ex_row \<in> set (compute_milestone_prices ex_sets ex_snaps)
   \<and> price_at_retirement ex_row = None \<and> price_1yr ex_row = Some 150
   \<and> target_1yr ex_row = Some (ln 3)
   \<and> (\<exists>row \<in> set ex_sets. set_num ex_row = set_number row \<and>
        price_1yr ex_row =
          (if 3 \<le> length (filter (\<lambda>s. exit_date row + 365 - 30 \<le> snap_date s
                                       \<and> snap_date s \<le> exit_date row + 365 + 30)
                     (filter (\<lambda>s. snap_set_num s = set_number row) ex_snaps))
           then pd_median (map price_gbp
                  (filter (\<lambda>s. exit_date row + 365 - 30 \<le> snap_date s
                               \<and> snap_date s \<le> exit_date row + 365 + 30)
                     (filter (\<lambda>s. snap_set_num s = set_number row) ex_snaps)))
           else None))"
proof -
  have h: "ex_row \<in> set (compute_milestone_prices ex_sets ex_snaps)"
    by (simp add: ex_row_computed)
  have v: "price_at_retirement ex_row = None" "price_1yr ex_row = Some 150"
    "target_1yr ex_row = Some (ln 3)"
    by (simp_all add: ex_row_def)
  from milestone_window_median_and_log_target[OF h]
  have "\<exists>row \<in> set ex_sets. set_num ex_row = set_number row \<and>
        price_1yr ex_row =
          (if 3 \<le> length (filter (\<lambda>s. exit_date row + 365 - 30 \<le> snap_date s
                                       \<and> snap_date s \<le> exit_date row + 365 + 30)
                     (filter (\<lambda>s. snap_set_num s = set_number row) ex_snaps))
           then pd_median (map price_gbp
                  (filter (\<lambda>s. exit_date row + 365 - 30 \<le> snap_date s
                               \<and> snap_date s \<le> exit_date row + 365 + 30)
                     (filter (\<lambda>s. snap_set_num s = set_number row) ex_snaps)))
           else None)"
    unfolding Let_def by blast
  with h v show ?thesis by blast
qed

lemma set_dedup_by_set_num: "set (dedup_by_set_num seen records) \<subseteq> set records"
  by (induction seen records rule: dedup_by_set_num.induct) auto

lemma set_col_image:
  assumes "\<And>v r. f (upd v r) = f r"
  shows "f ` set (set_col upd vals df) \<subseteq> f ` set df"
proof
  fix y assume "y \<in> f ` set (set_col upd vals df)"
  then obtain v r where "(v, r) \<in> set (zip vals df)" "y = f (upd v r)"
    by (auto simp: set_col_def)
  then show "y \<in> f ` set df"
    using assms by (auto dest: set_zip_rightD)
qed

lemma winsorise_targets_set_num:
  "set_num ` set (winsorise_targets df) \<subseteq> set_num ` set df"
proof -
  have step: "set_num ` set (set_col upd vals d) \<subseteq> set_num ` set d"
    if "\<And>v r. set_num (upd v r) = set_num r" for upd :: "real option \<Rightarrow> training_row \<Rightarrow> training_row"
      and vals d
    using set_col_image[of set_num upd vals d] that by simp
  have id: "\<And>v r. set_num (r\<lparr>target_6m := v\<rparr>) = set_num r"
    "\<And>v r. set_num (r\<lparr>target_1yr := v\<rparr>) = set_num r"
    "\<And>v r. set_num (r\<lparr>target_2yr := v\<rparr>) = set_num r"
    "\<And>v r. set_num (r\<lparr>target_3yr := v\<rparr>) = set_num r"
    by simp_all
  show ?thesis
    unfolding winsorise_targets_def Let_def
    by (rule subset_trans[OF step[OF id(4)]], rule subset_trans[OF step[OF id(3)]],
        rule subset_trans[OF step[OF id(2)]], rule step[OF id(1)])
qed

lemma run_build_set_num:
  "set_num ` set (run_build sets_df snapshots_df)
     \<subseteq> set_num ` set (compute_milestone_prices sets_df snapshots_df)"
proof -
  have "set (upsert_training_data d) \<subseteq> set (filter (\<lambda>r. data_quality r \<in> {Good, Partial}) d)" for d
    unfolding upsert_training_data_def Let_def by (rule set_dedup_by_set_num)
  then have "set (upsert_training_data d) \<subseteq> set d" for d
    by fastforce
  then have up: "set_num ` set (upsert_training_data d) \<subseteq> set_num ` set d" for d
    by blast
  show ?thesis
  proof (cases "sets_df = [] \<or> snapshots_df = []")
    case True
    then show ?thesis by (auto simp: run_build_def)
  next
    case False
    then have "run_build sets_df snapshots_df =
        upsert_training_data (winsorise_targets (compute_milestone_prices sets_df snapshots_df))"
      by (simp add: run_build_def)
    then show ?thesis
      using subset_trans[OF up[of "winsorise_targets (compute_milestone_prices sets_df snapshots_df)"]
          winsorise_targets_set_num[of "compute_milestone_prices sets_df snapshots_df"]]
      by simp
  qed
qed

text \<open>
  Claim C10. A set without any price snapshot yields no training row: the aggregator
  skips it before the milestone prices and the data-quality tag are computed, so every
  row it produces (the insufficient ones included) counts at least one snapshot of its
  own set, and no record written by the build run carries the item's identifier.
\<close>
theorem zero_observation_item_has_no_training_row:
  assumes "\<forall>s \<in> set snapshots_df. snap_set_num s \<noteq> n"
  shows "(\<forall>row \<in> set sets_df. set_number row = n \<longrightarrow> compute_row row snapshots_df = None)
       \<and> n \<notin> set_num ` set (compute_milestone_prices sets_df snapshots_df)
       \<and> n \<notin> set_num ` set (run_build sets_df snapshots_df)
       \<and> (\<forall>r \<in> set (compute_milestone_prices sets_df snapshots_df).
             1 \<le> snapshot_count r \<and> (\<exists>s \<in> set snapshots_df. snap_set_num s = set_num r))"
proof -
  have none: "filter (\<lambda>s. snap_set_num s = n) snapshots_df = []"
    using assms by (auto simp: filter_empty_conv)
  have A: "\<forall>row \<in> set sets_df. set_number row = n \<longrightarrow> compute_row row snapshots_df = None"
    using none by (auto simp: compute_row_def)
  have D: "1 \<le> snapshot_count r \<and> (\<exists>s \<in> set snapshots_df. snap_set_num s = set_num r)"
    if "r \<in> set (compute_milestone_prices sets_df snapshots_df)" for r
  proof -
    from that obtain row where row: "compute_row row snapshots_df = Some r"
      by (auto simp: compute_milestone_prices_mem)
    let ?ss = "filter (\<lambda>s. snap_set_num s = set_number row) snapshots_df"
    from compute_row_SomeD[OF row] have "set_num r = set_number row"
      "snapshot_count r = length ?ss" "?ss \<noteq> []" by auto
    moreover from \<open>?ss \<noteq> []\<close> obtain s where "s \<in> set ?ss" by (cases ?ss) auto
    then have "s \<in> set snapshots_df" "snap_set_num s = set_number row" by auto
    moreover from \<open>?ss \<noteq> []\<close> have "1 \<le> length ?ss" by (cases ?ss) auto
    ultimately show ?thesis by auto
  qed
  have B: "n \<notin> set_num ` set (compute_milestone_prices sets_df snapshots_df)"
    using D assms by force
  have C: "n \<notin> set_num ` set (run_build sets_df snapshots_df)"
    using B run_build_set_num by blast
  from A B C D show ?thesis by blast
qed

theorem zero_observation_item_has_no_training_row_witness:
  "''10001'' \<in> set (map set_number ex_sets)
   \<and> list_all (\<lambda>s. snap_set_num s \<noteq> ''10001'') ex_snaps
   \<and> ''10001'' \<notin> set_num ` set (compute_milestone_prices ex_sets ex_snaps)
   \<and> ''10001'' \<notin> set_num ` set (run_build ex_sets ex_snaps)
   \<and> compute_milestone_prices ex_sets ex_snaps = [ex_row]"
proof -
  have h: "\<forall>s \<in> set ex_snaps. snap_set_num s \<noteq> ''10001''"
    by (simp add: ex_snaps_def mk_snap_def)
  have m: "''10001'' \<in> set (map set_number ex_sets)"
    by (simp add: ex_sets_def)
  have l: "list_all (\<lambda>s. snap_set_num s \<noteq> ''10001'') ex_snaps"
    using h by (simp only: list_all_iff)
  from zero_observation_item_has_no_training_row[OF h, of ex_sets]
  have "''10001'' \<notin> set_num ` set (compute_milestone_prices ex_sets ex_snaps)"
    "''10001'' \<notin> set_num ` set (run_build ex_sets ex_snaps)"
    by blast+
  with m l ex_row_computed show ?thesis by blast
qed

lemma length_winsorise_col: "length (winsorise_col col) = length col"
  by (simp add: winsorise_col_def Let_def)

lemma length_set_col: "length vals = length df \<Longrightarrow> length (set_col upd vals df) = length df"
  by (simp add: set_col_def)

lemma map_set_col_same:
  assumes "length vals = length df" and "\<And>v r. g (upd v r) = v"
  shows "map g (set_col upd vals df) = vals"
proof -
  have "map g (set_col upd vals df) = map fst (zip vals df)"
    using assms(2) by (auto simp: set_col_def)
  then show ?thesis using assms(1) by simp
qed

lemma map_set_col_other:
  assumes "length vals = length df" and "\<And>v r. g (upd v r) = g r"
  shows "map g (set_col upd vals df) = map g df"
proof -
  have "map g (set_col upd vals df) = map g (map snd (zip vals df))"
    using assms(2) by (auto simp: set_col_def)
  then show ?thesis using assms(1) by simp
qed

lemma winsorise_targets_columns:
  "map target_6m (winsorise_targets df) = winsorise_col (map target_6m df)"
  "map target_1yr (winsorise_targets df) = winsorise_col (map target_1yr df)"
  "map target_2yr (winsorise_targets df) = winsorise_col (map target_2yr df)"
  "map target_3yr (winsorise_targets df) = winsorise_col (map target_3yr df)"
  unfolding winsorise_targets_def Let_def
  by (simp_all add: map_set_col_same map_set_col_other length_set_col length_winsorise_col)

lemma clip_idem: "clip lo hi (clip lo hi x) = clip lo hi x"
  by (auto simp: clip_def min_def max_def)

lemma winsorise_col_once:
  "winsorise_col [Some 0, Some 1, Some 2, Some 3, Some 4, Some 5, Some 6, Some 7, Some 8, Some 9] =
     [Some (9 / 50), Some 1, Some 2, Some 3, Some 4, Some 5, Some 6, Some 7, Some 8,
      Some (441 / 50)]"
  by (simp add: winsorise_col_def map_filter_simps pd_quantile_def Let_def WINSOR_LOW_def
      WINSOR_HIGH_def clip_def)

lemma winsorise_col_twice:
  "winsorise_col [Some (9 / 50), Some 1, Some 2, Some 3, Some 4, Some 5, Some 6, Some 7, Some 8,
      Some (441 / 50)] =
     [Some (819 / 2500), Some 1, Some 2, Some 3, Some 4, Some 5, Some 6, Some 7, Some 8,
      Some (21681 / 2500)]"
  by (simp add: winsorise_col_def map_filter_simps pd_quantile_def Let_def WINSOR_LOW_def
      WINSOR_HIGH_def clip_def)

text \<open>
  Claim C7, as stated, fails: a winsorisation pass recomputes the percentiles from the
  column it is given. On a column holding 0, 1, \<dots>, 9 the first pass clips to
  \<open>[0.18, 8.82]\<close>; the second pass finds the percentiles \<open>0.3276\<close> and \<open>8.6724\<close> of the
  clipped column and clips again, so two passes differ from one.
\<close>
theorem winsorise_pass_not_idempotent:
  "winsorise_targets (winsorise_targets ex_wins_df) \<noteq> winsorise_targets ex_wins_df"
proof
  assume eq: "winsorise_targets (winsorise_targets ex_wins_df) = winsorise_targets ex_wins_df"
  have col: "map target_6m ex_wins_df =
      [Some 0, Some 1, Some 2, Some 3, Some 4, Some 5, Some 6, Some 7, Some 8, Some 9]"
    by (simp add: ex_wins_df_def mk_trow_def)
  have "map target_6m (winsorise_targets (winsorise_targets ex_wins_df)) =
        map target_6m (winsorise_targets ex_wins_df)"
    using eq by simp
  then have "winsorise_col (winsorise_col (map target_6m ex_wins_df)) =
        winsorise_col (map target_6m ex_wins_df)"
    by (simp only: winsorise_targets_columns)
  then show False
    by (simp add: col winsorise_col_once winsorise_col_twice)
qed

text \<open>
  Claim C7, amended. Each target column of the winsorised table is the column clipped to
  the 2nd and 98th percentiles (linear interpolation) of its own non-null values, and is
  left as it is when it holds fewer than 10 non-null values; clipping a column again with
  the same two bounds changes nothing.
\<close>
theorem winsorise_clips_each_column_to_own_percentiles:
  "map target_6m (winsorise_targets df) = winsorise_col (map target_6m df)
   \<and> map target_1yr (winsorise_targets df) = winsorise_col (map target_1yr df)
   \<and> map target_2yr (winsorise_targets df) = winsorise_col (map target_2yr df)
   \<and> map target_3yr (winsorise_targets df) = winsorise_col (map target_3yr df)
   \<and> winsorise_col col =
       (if length (List.map_filter id col) < 10 then col
        else map (map_option (clip (pd_quantile (2 / 100) (List.map_filter id col))
                                   (pd_quantile (98 / 100) (List.map_filter id col)))) col)
   \<and> map (map_option (clip lo hi)) (map (map_option (clip lo hi)) col)
       = map (map_option (clip lo hi)) col"
proof -
  have "winsorise_col col =
       (if length (List.map_filter id col) < 10 then col
        else map (map_option (clip (pd_quantile (2 / 100) (List.map_filter id col))
                                   (pd_quantile (98 / 100) (List.map_filter id col)))) col)"
    by (simp add: winsorise_col_def Let_def WINSOR_LOW_def WINSOR_HIGH_def)
  moreover have "map (map_option (clip lo hi)) (map (map_option (clip lo hi)) col)
       = map (map_option (clip lo hi)) col"
    by (simp add: option.map_comp comp_def clip_idem)
  ultimately show ?thesis
    using winsorise_targets_columns[of df] by blast
qed

section \<open>Properties of the feature builder\<close>

lemma length_compute_theme_historical_features:
  "length (compute_theme_historical_features df h) = length df"
  by (simp add: compute_theme_historical_features_def Let_def)


text \<open>
  On a frame that is already in exit-date order the stable sort changes nothing, and the
  entry stored for row \<open>i\<close> is the one computed for row \<open>i\<close>.
\<close>
lemma theme_features_aligned_on_sorted_frame:
  assumes "sorted (map tr_exit_date df)" and "i < length df"
  shows "compute_theme_historical_features df h ! i = theme_features_row h df (df ! i)"
  using assms by (simp add: compute_theme_historical_features_def sort_key_id_if_sorted Let_def)

text \<open>
  Claim C1, the code at a failing input. The frame holds four sets of one theme, the
  latest first: exit days 40, 10, 20, 30 with 1-year targets 4, 1, 2, 3. The features are
  computed in exit-date order and stored under the positions of the sorted frame, so the
  entry stored for row 3 of the frame (exit day 30, target 3) is the one computed for the
  set with exit day 40: mean 2, median 2, standard deviation 1 over three prior sets,
  which are the sets with exit days 10, 20 and 30. Row 3's own target is among them,
  while the rows of its theme that exited strictly earlier are two (targets 1 and 2).
\<close>
theorem theme_features_misaligned_on_unsorted_frame:
  "compute_theme_historical_features ex_unsorted_df H1yr ! 3 =
     \<lparr> theme_mean_log = Some 2, theme_median_log = Some 2, theme_std_log = Some 1,
       theme_sample_size = Some 3 \<rparr>
   \<and> set_num (ex_unsorted_df ! 3) = ''c''
   \<and> tr_exit_date (ex_unsorted_df ! 3) = 30
   \<and> target_1yr (ex_unsorted_df ! 3) = Some 3
   \<and> map target_1yr (prior_rows H1yr ex_unsorted_df ''City'' 30) = [Some 1, Some 2]
   \<and> map target_1yr (prior_rows H1yr ex_unsorted_df ''City'' 40) = [Some 1, Some 2, Some 3]"
  by (simp add: compute_theme_historical_features_def ex_unsorted_df_def mk_mrow_def
      theme_features_row_def prior_rows_def map_filter_simps pd_mean_def pd_median_def
      pd_std_def sq_dev_def Let_def)




lemma sqrt_100: "sqrt 100 = 10"
  using real_sqrt_abs[of 10] by simp

text \<open>
  Claim C5, the code at a failing input. A training item with prices 10, 20, 30 on the
  three days after its exit date (mean price 20) gets momentum 10 and volatility 10, the
  raw least-squares slope and the raw sample standard deviation; normalised by the mean
  price they would be 1/2 and 1/2, which is what the scorer computes from the same three
  observations. The scorer regresses on the observation index, not on time: for prices
  10, 20, 30 observed on days 0, 1 and 10 it returns 1/2 again, while the slope against
  the day, over the mean price, is 15/182.
\<close>
theorem training_trajectory_features_not_normalised:
  "price_momentum_90d 0 ex_obs = Some 10
   \<and> price_volatility_180d 0 ex_obs = Some 10
   \<and> sum_list (map price_gbp ex_obs) / real (length ex_obs) = 20
   \<and> active_price_momentum_90d ex_active_obs = Some (1 / 2)
   \<and> active_price_volatility_180d ex_active_obs = Some (1 / 2)
   \<and> active_price_momentum_90d ex_uneven_obs = Some (1 / 2)
   \<and> polyfit_slope [0, 1, 10] [10, 20, 30] / 20 = 15 / 182"
  by (simp add: price_momentum_90d_def price_volatility_180d_def ex_obs_def mk_snap_def
      np_std_def pd_std_def sq_dev_def polyfit_slope_def Let_def power2_eq_square sqrt_100
      active_price_momentum_90d_def active_price_volatility_180d_def recent_prices_def
      map_filter_simps ex_active_obs_def ex_uneven_obs_def upt_rec)

section \<open>Properties of the missing-value handling\<close>

lemma pd_median_nonempty:
  assumes "xs \<noteq> []"
  shows "pd_median xs =
     Some (if odd (length xs) then sort xs ! (length xs div 2)
           else (sort xs ! (length xs div 2 - 1) + sort xs ! (length xs div 2)) / 2)"
proof -
  have "sort xs \<noteq> []"
    using assms by (metis length_sort length_0_conv)
  then show ?thesis
    by (simp add: pd_median_def Let_def)
qed

lemma fillna_median_nth:
  assumes "i < length col"
  shows "fillna_median col ! i =
     (case col ! i of Some x \<Rightarrow> Some x | None \<Rightarrow> pd_median (List.map_filter id col))"
  using assms by (auto simp: fillna_median_def split: option.splits)

lemma fillna_median_no_null:
  assumes "List.map_filter id col \<noteq> []"
  shows "None \<notin> set (fillna_median col)"
proof -
  from pd_median_nonempty[OF assms] obtain m where "pd_median (List.map_filter id col) = Some m"
    by blast
  then show ?thesis
    by (auto simp: fillna_median_def split: option.splits)
qed

lemma score_vector_props:
  "length (score_vector feature_cols feats) = length feature_cols"
  "None \<notin> set (score_vector feature_cols feats)"
  "j < length feature_cols \<Longrightarrow> score_vector feature_cols feats ! j =
       (case map_of feats (feature_cols ! j) of Some (Some x) \<Rightarrow> Some x | _ \<Rightarrow> Some 0)"
  by (auto simp: score_vector_def Let_def split: option.splits)

text \<open>
  Claim C4, as stated, fails at scoring time: the scorer does not leave nulls in place.
  A null feature and a feature the frame lacks both reach \<^verbatim>\<open>predict\<close> as 0.
\<close>
theorem scoring_fills_nulls_with_zero:
  "score_vector [''rating'', ''rrp_gbp'', ''box_volume''] ex_feats = [Some 0, Some 10, Some 0]
   \<and> score_vector [''rating'', ''rrp_gbp'', ''box_volume''] ex_feats \<noteq> [None, Some 10, None]"
  by (simp add: score_vector_def ex_feats_def)

text \<open>
  Claim C4, amended. The handling is asymmetric. At training time every null cell of a
  feature column becomes the median of the column's non-null values and the other cells
  are kept, so a column with at least one value reaches the training call without nulls.
  At scoring time the vector handed to the regressor has one cell per expected feature
  and no null: a null or absent feature is replaced by 0, a present value is kept.
\<close>
theorem training_median_imputes_scoring_zero_fills:
  "(\<forall>i < length col. fillna_median col ! i =
        (case col ! i of Some x \<Rightarrow> Some x | None \<Rightarrow> pd_median (List.map_filter id col)))
   \<and> (List.map_filter id col \<noteq> [] \<longrightarrow> None \<notin> set (fillna_median col))
   \<and> map snd (impute_features X) = map (fillna_median \<circ> snd) X
   \<and> length (score_vector feature_cols feats) = length feature_cols
   \<and> None \<notin> set (score_vector feature_cols feats)
   \<and> (\<forall>j < length feature_cols. score_vector feature_cols feats ! j =
         (case map_of feats (feature_cols ! j) of Some (Some x) \<Rightarrow> Some x | _ \<Rightarrow> Some 0))"
proof -
  have "map snd (impute_features X) = map (fillna_median \<circ> snd) X"
    by (auto simp: impute_features_def)
  then show ?thesis
    using fillna_median_nth fillna_median_no_null score_vector_props
    by blast
qed

theorem training_median_imputes_scoring_zero_fills_witness:
  "fillna_median ex_col = [Some 1, Some 2, Some 3]
   \<and> List.map_filter id ex_col \<noteq> []
   \<and> None \<notin> set (fillna_median ex_col)
   \<and> fillna_median ex_col ! 1 = pd_median (List.map_filter id ex_col)
   \<and> score_vector [''rating'', ''rrp_gbp'', ''box_volume''] ex_feats ! 0 = Some 0"
proof -
  have v: "fillna_median ex_col = [Some 1, Some 2, Some 3]"
    by (simp add: fillna_median_def ex_col_def pd_median_def)
  have ne: "List.map_filter id ex_col \<noteq> []"
    by (simp add: ex_col_def)
  have i: "1 < length ex_col" "ex_col ! 1 = None"
    by (simp_all add: ex_col_def)
  have j: "0 < length [''rating'', ''rrp_gbp'', ''box_volume'']"
    "map_of ex_feats ([''rating'', ''rrp_gbp'', ''box_volume''] ! 0) = Some None"
    by (simp_all add: ex_feats_def)
  from training_median_imputes_scoring_zero_fills
    [of ex_col "[]" "[''rating'', ''rrp_gbp'', ''box_volume'']" ex_feats]
  have "None \<notin> set (fillna_median ex_col)"
    "fillna_median ex_col ! 1 = pd_median (List.map_filter id ex_col)"
    "score_vector [''rating'', ''rrp_gbp'', ''box_volume''] ex_feats ! 0 = Some 0"
    using ne i j by (auto split: option.splits)
  with v ne show ?thesis by blast
qed

section \<open>Properties of the scorer\<close>






lemma compute_confidence_range: "0 < compute_confidence a b \<and> compute_confidence a b \<le> 1"
  by (simp add: compute_confidence_def Let_def)

lemma map_of_map_values:
  "map_of (map (\<lambda>(h, hdat). (h, g hdat)) models) key = map_option g (map_of models key)"
  by (simp add: map_of_map)

lemma score_item_fields:
  "p_set_num (score_item models feats row) = it_set_number row"
  "horizon_fields (score_item models feats row) =
     map (\<lambda>(h, hdat). (h, score_horizon hdat feats (it_uk_retail_price row))) models"
  "investment_score (score_item models feats row) = None"
  "risk_factors (score_item models feats row) = None"
  by (simp_all add: score_item_def Let_def)

lemma score_item_horizon:
  "map_of (horizon_fields (score_item models feats row)) h =
     map_option (\<lambda>hdat. score_horizon hdat feats (it_uk_retail_price row)) (map_of models h)"
  by (simp add: score_item_fields map_of_map_values)

lemma finish_prediction_fields:
  "horizon_fields (finish_prediction cs df i p) = horizon_fields p"
  "expected_profit_1yr_gbp (finish_prediction cs df i p) = expected_profit_1yr_gbp p"
  "expected_profit_3yr_gbp (finish_prediction cs df i p) = expected_profit_3yr_gbp p"
  "risk_adjusted_score (finish_prediction cs df i p) = risk_adjusted_score p"
  "p_set_num (finish_prediction cs df i p) = p_set_num p"
  "investment_score (finish_prediction cs df i p) = Some (py_round 2 (cs ! i))"
  by (simp_all add: finish_prediction_def)


lemma score_sets_with_1yr:
  assumes "map_of models H1yr = Some hd1" and "length features = length df" and "df \<noteq> []"
  shows "score_sets df features models =
     (let ps = map (\<lambda>(row, feats). score_item models feats row) (zip df features)
      in map (\<lambda>i. finish_prediction (composite ps) df i (ps ! i)) [0..<length ps])"
proof -
  let ?ps = "map (\<lambda>(row, feats). score_item models feats row) (zip df features)"
  have ne: "?ps \<noteq> []" using assms(2,3) by (cases df; cases features) auto
  have "map_of (horizon_fields p) H1yr \<noteq> None" if "p \<in> set ?ps" for p
    using that assms(1) by (auto simp: score_item_horizon)
  with ne have "list_ex (\<lambda>p. map_of (horizon_fields p) H1yr \<noteq> None) ?ps"
    by (cases ?ps) (auto simp: list_ex_iff)
  with ne show ?thesis
    by (simp add: score_sets_def Let_def)
qed








lemma load_horizon_key: "load_horizon s k = Some (k', d) \<Longrightarrow> k' = k"
  by (auto simp: load_horizon_def split: option.splits)

lemma load_horizon_same:
  assumes "features_file s k = features_file s' k" and "model_file s k = model_file s' k"
  shows "load_horizon s k = load_horizon s' k"
  by (simp only: load_horizon_def assms)

lemma load_horizon_incomplete:
  assumes "features_file store h = None \<or> model_file store h P25 = None
           \<or> model_file store h P50 = None \<or> model_file store h P75 = None"
  shows "load_horizon store h = None"
  using assms by (auto simp: load_horizon_def split: option.splits)

lemma map_filter_load_restrict:
  assumes "load_horizon store h = None"
    and "\<forall>k. k \<noteq> h \<longrightarrow> load_horizon store k = load_horizon full k"
  shows "List.map_filter (load_horizon store) hs =
         filter (\<lambda>(k, d). k \<noteq> h) (List.map_filter (load_horizon full) hs)"
proof (induction hs)
  case Nil
  then show ?case by simp
next
  case (Cons k hs)
  show ?case
  proof (cases "k = h")
    case True
    with assms(1) Cons show ?thesis
      by (auto simp: split: option.splits dest: load_horizon_key)
  next
    case False
    with assms(2) have eq: "load_horizon store k = load_horizon full k" by simp
    with False Cons show ?thesis
      by (auto simp: split: option.splits dest: load_horizon_key)
  qed
qed

lemma map_of_filter_key:
  "map_of (filter (\<lambda>(k, v). k \<noteq> h) xs) k' = (if k' = h then None else map_of xs k')"
  by (induction xs) auto

lemma filter_map_keys:
  "filter (\<lambda>(k, v). k \<noteq> h) (map (\<lambda>(k, v). (k, f v)) xs) =
   map (\<lambda>(k, v). (k, f v)) (filter (\<lambda>(k, v). k \<noteq> h) xs)"
  by (induction xs) auto

lemma score_item_drop:
  assumes "h \<noteq> H1yr"
  shows "score_item (filter (\<lambda>(k, d). k \<noteq> h) models) feats row =
         drop_horizon_fields h (score_item models feats row)"
  using assms
  by (simp add: score_item_def Let_def drop_horizon_fields_def map_of_map_values
      map_of_filter_key filter_map_keys)

lemma drop_horizon_fields_1yr:
  assumes "h \<noteq> H1yr"
  shows "map_of (horizon_fields (drop_horizon_fields h p)) H1yr = map_of (horizon_fields p) H1yr"
  using assms by (simp add: drop_horizon_fields_def map_of_filter_key)

lemma drop_horizon_fields_other:
  "expected_profit_1yr_gbp (drop_horizon_fields h p) = expected_profit_1yr_gbp p"
  "risk_adjusted_score (drop_horizon_fields h p) = risk_adjusted_score p"
  "theme_sample_size_1yr (drop_horizon_fields h p) = theme_sample_size_1yr p"
  "investment_score (drop_horizon_fields h p) = investment_score p"
  "risk_factors (drop_horizon_fields h p) = risk_factors p"
  "p_set_num (drop_horizon_fields h p) = p_set_num p"
  by (simp_all add: drop_horizon_fields_def)

lemma composite_drop:
  assumes "h \<noteq> H1yr"
  shows "composite (map (drop_horizon_fields h) ps) = composite ps"
  using assms
  by (simp add: composite_def Let_def col_appreciation_1yr_def col_confidence_1yr_def comp_def
      drop_horizon_fields_1yr drop_horizon_fields_other)

lemma assess_risk_factors_drop:
  assumes "h \<noteq> H1yr"
  shows "assess_risk_factors row ((drop_horizon_fields h p)\<lparr>investment_score := s\<rparr>) =
         assess_risk_factors row (p\<lparr>investment_score := s\<rparr>)"
  using assms
  by (simp add: assess_risk_factors_def Let_def drop_horizon_fields_def map_of_filter_key)

lemma finish_prediction_drop:
  assumes "h \<noteq> H1yr"
  shows "finish_prediction cs df i (drop_horizon_fields h p) =
         drop_horizon_fields h (finish_prediction cs df i p)"
  unfolding finish_prediction_def assess_risk_factors_drop[OF assms]
  by (simp add: drop_horizon_fields_def)

lemma finish_all_drop:
  assumes "h \<noteq> H1yr"
  shows "map (\<lambda>i. finish_prediction (composite (map (drop_horizon_fields h) ps)) df i
                    (map (drop_horizon_fields h) ps ! i)) [0..<length ps] =
         map (drop_horizon_fields h)
           (map (\<lambda>i. finish_prediction (composite ps) df i (ps ! i)) [0..<length ps])"
  by (simp add: composite_drop[OF assms] finish_prediction_drop[OF assms])

lemma score_sets_drop:
  assumes "h \<noteq> H1yr"
  shows "score_sets df features (filter (\<lambda>(k, d). k \<noteq> h) models) =
         map (drop_horizon_fields h) (score_sets df features models)"
proof -
  define ps where "ps = map (\<lambda>(row, feats). score_item models feats row) (zip df features)"
  have qs: "map (\<lambda>(row, feats). score_item (filter (\<lambda>(k, d). k \<noteq> h) models) feats row)
               (zip df features) = map (drop_horizon_fields h) ps"
    unfolding ps_def map_map
    by (rule map_cong[OF refl]) (auto simp: score_item_drop[OF assms])
  have ex: "list_ex (\<lambda>p. map_of (horizon_fields p) H1yr \<noteq> None) (map (drop_horizon_fields h) ps)
        = list_ex (\<lambda>p. map_of (horizon_fields p) H1yr \<noteq> None) ps"
    by (simp add: list_ex_iff drop_horizon_fields_1yr[OF assms])
  have l: "score_sets df features models =
      (if ps \<noteq> [] \<and> list_ex (\<lambda>p. map_of (horizon_fields p) H1yr \<noteq> None) ps
       then map (\<lambda>i. finish_prediction (composite ps) df i (ps ! i)) [0..<length ps]
       else ps)"
    unfolding score_sets_def Let_def ps_def ..
  have r: "score_sets df features (filter (\<lambda>(k, d). k \<noteq> h) models) =
      (if map (drop_horizon_fields h) ps \<noteq> []
          \<and> list_ex (\<lambda>p. map_of (horizon_fields p) H1yr \<noteq> None) (map (drop_horizon_fields h) ps)
       then map (\<lambda>i. finish_prediction (composite (map (drop_horizon_fields h) ps)) df i
                        (map (drop_horizon_fields h) ps ! i))
              [0..<length (map (drop_horizon_fields h) ps)]
       else map (drop_horizon_fields h) ps)"
    unfolding score_sets_def Let_def qs ..
  show ?thesis
  proof (cases "ps \<noteq> [] \<and> list_ex (\<lambda>p. map_of (horizon_fields p) H1yr \<noteq> None) ps")
    case True
    then have "map (drop_horizon_fields h) ps \<noteq> []
          \<and> list_ex (\<lambda>p. map_of (horizon_fields p) H1yr \<noteq> None) (map (drop_horizon_fields h) ps)"
      unfolding ex by simp
    then have "score_sets df features (filter (\<lambda>(k, d). k \<noteq> h) models) =
        map (\<lambda>i. finish_prediction (composite (map (drop_horizon_fields h) ps)) df i
                        (map (drop_horizon_fields h) ps ! i)) [0..<length ps]"
      unfolding r by (simp only: if_True length_map simp_thms)
    moreover from True have "score_sets df features models =
        map (\<lambda>i. finish_prediction (composite ps) df i (ps ! i)) [0..<length ps]"
      unfolding l by (simp only: if_True simp_thms)
    ultimately show ?thesis
      using finish_all_drop[OF assms, of ps df] by (simp only:)
  next
    case False
    then have "\<not> (map (drop_horizon_fields h) ps \<noteq> []
          \<and> list_ex (\<lambda>p. map_of (horizon_fields p) H1yr \<noteq> None) (map (drop_horizon_fields h) ps))"
      unfolding ex by simp
    then have "score_sets df features (filter (\<lambda>(k, d). k \<noteq> h) models) =
        map (drop_horizon_fields h) ps"
      unfolding r by (simp only: if_False simp_thms)
    moreover from False have "score_sets df features models = ps"
      unfolding l by (simp only: if_False simp_thms)
    ultimately show ?thesis by (simp only:)
  qed
qed

lemma length_score_sets:
  "length (score_sets df features models) = min (length df) (length features)"
  by (simp add: score_sets_def Let_def)

lemma score_sets_without_1yr:
  assumes "map_of models H1yr = None" and "p \<in> set (score_sets df features models)"
  shows "investment_score p = None \<and> risk_factors p = None
       \<and> expected_profit_1yr_gbp p = None \<and> risk_adjusted_score p = 0
       \<and> map_of (horizon_fields p) H1yr = None"
proof -
  let ?ps = "map (\<lambda>(row, feats). score_item models feats row) (zip df features)"
  have none: "map_of (horizon_fields q) H1yr = None" if "q \<in> set ?ps" for q
    using that assms(1) by (auto simp: score_item_horizon)
  then have "\<not> list_ex (\<lambda>p. map_of (horizon_fields p) H1yr \<noteq> None) ?ps"
    by (auto simp: list_ex_iff)
  then have "score_sets df features models = ?ps"
    by (simp add: score_sets_def Let_def)
  with assms(2) obtain row feats where "p = score_item models feats row"
    by auto
  then show ?thesis
    using assms(1) by (simp add: score_item_def Let_def map_of_map_values)
qed

lemma ex_load_full: "load_models ex_store_full = ex_models"
  by (simp add: load_models_def HORIZONS_def load_horizon_def ex_store_full_def ex_models_def
      ex_hdata_def)

lemma ex_load_no_1yr: "load_models ex_store_no_1yr_p25 = [(H6m, ex_hdata)]"
  by (simp add: load_models_def HORIZONS_def load_horizon_def ex_store_full_def
      ex_store_no_1yr_p25_def ex_hdata_def)

lemma ex_load_no_6m: "load_models ex_store_no_6m = [(H1yr, ex_hdata)]"
  by (simp add: load_models_def HORIZONS_def load_horizon_def ex_store_full_def
      ex_store_no_6m_def ex_hdata_def)

lemma ex_score_horizon:
  "predicted_appreciation (score_horizon ex_hdata ex_feats 50) = 0"
  "confidence (score_horizon ex_hdata ex_feats 50) = 6667 / 10000"
  by (simp_all add: score_horizon_def ex_hdata_def Let_def py_round_def round_half_even_def
      compute_confidence_def)

lemma ex_item_fields:
  "it_set_number ex_item = ''10311''" "it_uk_retail_price ex_item = 50"
  "it_pieces ex_item = Some 500"
  by (simp_all add: ex_item_def)

lemma ex_score_item:
  "horizon_fields (score_item ex_models ex_feats ex_item) =
     [(H6m, score_horizon ex_hdata ex_feats 50), (H1yr, score_horizon ex_hdata ex_feats 50)]"
  "expected_profit_1yr_gbp (score_item ex_models ex_feats ex_item) = Some 0"
  "risk_adjusted_score (score_item ex_models ex_feats ex_item) = 0"
  by (simp_all add: score_item_def ex_models_def ex_item_fields Let_def ex_score_horizon
      py_round_def round_half_even_def)

lemma ex_score_item_theme_size:
  "theme_sample_size_1yr (score_item ex_models ex_feats ex_item) = Some (Some 0)"
  by (simp add: score_item_def Let_def ex_feats_def)

lemma fillna_rank_single: "fillna (1 / 2) (rank_pct [Some v]) = [1]"
  by (simp add: fillna_def rank_pct_def Let_def)

lemma fillna_single: "fillna d [Some c] = [c]"
  by (simp add: fillna_def)

lemma ex_composite: "composite [score_item ex_models ex_feats ex_item] = [916675 / 100000]"
  by (simp add: composite_def Let_def col_appreciation_1yr_def col_confidence_1yr_def
      ex_score_item fillna_rank_single ex_score_horizon W_appreciation_1yr_def
      W_confidence_1yr_def W_expected_profit_1yr_def W_risk_adjusted_def fillna_single)

lemma ex_scored:
  "score_sets [ex_item] [ex_feats] ex_models =
     [finish_prediction [916675 / 100000] [ex_item] 0 (score_item ex_models ex_feats ex_item)]"
proof -
  have m: "map_of ex_models H1yr = Some ex_hdata" by (simp add: ex_models_def)
  show ?thesis
    using score_sets_with_1yr[OF m, of "[ex_feats]" "[ex_item]"]
    by (simp add: Let_def ex_composite)
qed

lemma ex_investment_score:
  "investment_score (score_sets [ex_item] [ex_feats] ex_models ! 0) = Some (917 / 100)"
  by (simp add: ex_scored finish_prediction_fields py_round_def round_half_even_def)

lemma ex_risk_factors:
  "risk_factors (score_sets [ex_item] [ex_feats] ex_models ! 0) = Some []"
  unfolding ex_scored
  by (simp add: finish_prediction_def assess_risk_factors_def Let_def ex_score_item
      ex_score_item_theme_size ex_score_horizon ex_item_fields)


lemma load_models_restrict:
  assumes "features_file store h = None \<or> model_file store h P25 = None
           \<or> model_file store h P50 = None \<or> model_file store h P75 = None"
    and "\<forall>k. k \<noteq> h \<longrightarrow> features_file full k = features_file store k
                         \<and> model_file full k = model_file store k"
  shows "load_models store = filter (\<lambda>(k, d). k \<noteq> h) (load_models full)"
proof -
  have "\<forall>k. k \<noteq> h \<longrightarrow> load_horizon store k = load_horizon full k"
    using assms(2) by (auto intro: load_horizon_same)
  with load_horizon_incomplete[OF assms(1)] show ?thesis
    unfolding load_models_def by (rule map_filter_load_restrict)
qed




text \<open>
  Claim C9, as stated, fails when the horizon is the 1-year one: the composite score and
  the risk factors are computed only if the batch has a 1-year appreciation column. With
  the p25 model file of the 1-year horizon missing, the set is still scored on the
  6-month horizon, but it gets no investment score and no risk factors, which the
  complete model directory gives it.
\<close>
theorem missing_1yr_model_removes_composite_score:
  "map fst (load_models ex_store_full) = [H6m, H1yr]
   \<and> map fst (load_models ex_store_no_1yr_p25) = [H6m]
   \<and> length (run_scoring ex_store_no_1yr_p25 [ex_item] [ex_feats]) = 1
   \<and> investment_score (run_scoring ex_store_full [ex_item] [ex_feats] ! 0) = Some (917 / 100)
   \<and> risk_factors (run_scoring ex_store_full [ex_item] [ex_feats] ! 0) = Some []
   \<and> investment_score (run_scoring ex_store_no_1yr_p25 [ex_item] [ex_feats] ! 0) = None
   \<and> risk_factors (run_scoring ex_store_no_1yr_p25 [ex_item] [ex_feats] ! 0) = None"
proof -
  have full: "run_scoring ex_store_full [ex_item] [ex_feats] =
      score_sets [ex_item] [ex_feats] ex_models"
    by (simp add: run_scoring_def ex_load_full Let_def ex_models_def)
  have part: "run_scoring ex_store_no_1yr_p25 [ex_item] [ex_feats] =
      score_sets [ex_item] [ex_feats] [(H6m, ex_hdata)]"
    by (simp add: run_scoring_def ex_load_no_1yr Let_def)
  have len: "length (score_sets [ex_item] [ex_feats] [(H6m, ex_hdata)]) = 1"
    by (simp add: length_score_sets)
  then have "score_sets [ex_item] [ex_feats] [(H6m, ex_hdata)] ! 0
      \<in> set (score_sets [ex_item] [ex_feats] [(H6m, ex_hdata)])"
    by (metis nth_mem zero_less_one)
  then have "investment_score (score_sets [ex_item] [ex_feats] [(H6m, ex_hdata)] ! 0) = None
      \<and> risk_factors (score_sets [ex_item] [ex_feats] [(H6m, ex_hdata)] ! 0) = None"
    using score_sets_without_1yr[of "[(H6m, ex_hdata)]" _ "[ex_item]" "[ex_feats]"] by simp
  then show ?thesis
    unfolding full part
    using len by (simp add: ex_load_full ex_load_no_1yr ex_models_def[symmetric]
        ex_investment_score ex_risk_factors) (simp add: ex_models_def)
qed

text \<open>
  Claim C9, amended. If the feature list or one of the three model files of a horizon is
  absent, that horizon is not loaded and the other horizons are loaded as they would be
  from any directory that agrees on their files. If a horizon remains loaded, every set
  is still scored. If the disabled horizon is not the 1-year one, the predictions are
  those of the other directory with the keys of that horizon removed, and nothing else
  differs. If it is the 1-year one, no prediction has an investment score or risk
  factors, the expected 1-year profit is null and the risk-adjusted score is 0.
\<close>
theorem missing_model_file_disables_only_its_horizon:
  assumes "features_file store h = None \<or> model_file store h P25 = None
           \<or> model_file store h P50 = None \<or> model_file store h P75 = None"
    and "\<forall>k. k \<noteq> h \<longrightarrow> features_file full k = features_file store k
                         \<and> model_file full k = model_file store k"
  shows "load_models store = filter (\<lambda>(k, d). k \<noteq> h) (load_models full)
       \<and> (load_models store \<noteq> [] \<longrightarrow>
            length (run_scoring store df features) = min (length df) (length features))
       \<and> (h \<noteq> H1yr \<and> load_models store \<noteq> [] \<longrightarrow>
            run_scoring store df features =
              map (drop_horizon_fields h) (run_scoring full df features))
       \<and> (h = H1yr \<longrightarrow>
            (\<forall>p \<in> set (run_scoring store df features).
                investment_score p = None \<and> risk_factors p = None
                \<and> expected_profit_1yr_gbp p = None \<and> risk_adjusted_score p = 0
                \<and> map_of (horizon_fields p) H1yr = None))"
proof -
  have load: "load_models store = filter (\<lambda>(k, d). k \<noteq> h) (load_models full)"
    using assms by (rule load_models_restrict)
  have len: "length (run_scoring store df features) = min (length df) (length features)"
    if "load_models store \<noteq> []"
    using that by (simp add: run_scoring_def Let_def length_score_sets)
  have drop: "run_scoring store df features =
              map (drop_horizon_fields h) (run_scoring full df features)"
    if "h \<noteq> H1yr" "load_models store \<noteq> []"
  proof -
    from that(2) load have full: "load_models full \<noteq> []" by auto
    show ?thesis
    proof (cases "df = []")
      case True
      with that(2) full show ?thesis by (simp add: run_scoring_def Let_def)
    next
      case False
      with that(2) full have "run_scoring store df features =
          score_sets df features (filter (\<lambda>(k, d). k \<noteq> h) (load_models full))"
        "run_scoring full df features = score_sets df features (load_models full)"
        using load by (simp_all add: run_scoring_def Let_def)
      then show ?thesis
        using score_sets_drop[OF that(1)] by simp
    qed
  qed
  have one: "investment_score p = None \<and> risk_factors p = None
                \<and> expected_profit_1yr_gbp p = None \<and> risk_adjusted_score p = 0
                \<and> map_of (horizon_fields p) H1yr = None"
    if "h = H1yr" "p \<in> set (run_scoring store df features)" for p
  proof -
    have none: "map_of (load_models store) H1yr = None"
      unfolding load using that(1) by (simp add: map_of_filter_key)
    from that(2) have "p \<in> set (score_sets df features (load_models store))"
      by (auto simp: run_scoring_def Let_def split: if_splits)
    with none show ?thesis by (rule score_sets_without_1yr)
  qed
  from load len drop one show ?thesis by blast
qed

theorem missing_model_file_disables_only_its_horizon_witness:
  "load_models ex_store_no_6m = [(H1yr, ex_hdata)]
   \<and> length (run_scoring ex_store_no_6m [ex_item] [ex_feats]) = 1
   \<and> run_scoring ex_store_no_6m [ex_item] [ex_feats] =
       map (drop_horizon_fields H6m) (run_scoring ex_store_full [ex_item] [ex_feats])
   \<and> investment_score (run_scoring ex_store_no_6m [ex_item] [ex_feats] ! 0) = Some (917 / 100)
   \<and> list_all (\<lambda>p. investment_score p = None \<and> expected_profit_1yr_gbp p = None)
        (run_scoring ex_store_no_1yr_p25 [ex_item] [ex_feats])"
proof -
  have a6: "features_file ex_store_no_6m H6m = None \<or> model_file ex_store_no_6m H6m P25 = None
           \<or> model_file ex_store_no_6m H6m P50 = None \<or> model_file ex_store_no_6m H6m P75 = None"
    by (simp add: ex_store_no_6m_def)
  have b6: "\<forall>k. k \<noteq> H6m \<longrightarrow> features_file ex_store_full k = features_file ex_store_no_6m k
                         \<and> model_file ex_store_full k = model_file ex_store_no_6m k"
    by (simp add: ex_store_no_6m_def)
  have a1: "features_file ex_store_no_1yr_p25 H1yr = None
           \<or> model_file ex_store_no_1yr_p25 H1yr P25 = None
           \<or> model_file ex_store_no_1yr_p25 H1yr P50 = None
           \<or> model_file ex_store_no_1yr_p25 H1yr P75 = None"
    by (simp add: ex_store_no_1yr_p25_def)
  have b1: "\<forall>k. k \<noteq> H1yr \<longrightarrow> features_file ex_store_full k = features_file ex_store_no_1yr_p25 k
                         \<and> model_file ex_store_full k = model_file ex_store_no_1yr_p25 k"
    by (simp add: ex_store_no_1yr_p25_def fun_eq_iff)
  have ne: "load_models ex_store_no_6m \<noteq> []" by (simp add: ex_load_no_6m)
  have full: "run_scoring ex_store_full [ex_item] [ex_feats] =
      score_sets [ex_item] [ex_feats] ex_models"
    by (simp add: run_scoring_def ex_load_full Let_def ex_models_def)
  have h6: "H6m \<noteq> H1yr" by simp
  from missing_model_file_disables_only_its_horizon[OF a6 b6, of "[ex_item]" "[ex_feats]"] ne h6
  have l0: "length (run_scoring ex_store_no_6m [ex_item] [ex_feats]) =
        min (length [ex_item]) (length [ex_feats])"
    and d: "run_scoring ex_store_no_6m [ex_item] [ex_feats] =
       map (drop_horizon_fields H6m) (run_scoring ex_store_full [ex_item] [ex_feats])"
    by blast+
  from l0 have l: "length (run_scoring ex_store_no_6m [ex_item] [ex_feats]) = 1"
    by simp
  have s: "investment_score (run_scoring ex_store_no_6m [ex_item] [ex_feats] ! 0) = Some (917 / 100)"
    unfolding d full using ex_investment_score
    by (simp add: ex_scored drop_horizon_fields_other)
  from missing_model_file_disables_only_its_horizon[OF a1 b1, of "[ex_item]" "[ex_feats]"]
  have "\<forall>p \<in> set (run_scoring ex_store_no_1yr_p25 [ex_item] [ex_feats]).
          investment_score p = None \<and> expected_profit_1yr_gbp p = None"
    by blast
  then have n: "list_all (\<lambda>p. investment_score p = None \<and> expected_profit_1yr_gbp p = None)
        (run_scoring ex_store_no_1yr_p25 [ex_item] [ex_feats])"
    by (simp only: list_all_iff)
  from l d s n ex_load_no_6m show ?thesis by blast
qed

section \<open>Properties of the calibration check\<close>







end
